theory Spec2Isabelle
  imports Complex_Main
begin

section \<open>Configuration constants of \<^verbatim>\<open>src/code.py\<close>\<close>

text \<open>
  Python floats (clock readings in milliseconds, accelerations, angles) are modelled by
  the real numbers they denote. Comparisons are the exact ones. The sum and the quotient
  of the angle filter are rounded to the nearest float, as the program computes them; the
  other arithmetic (differences of clock readings, the brightness ramp, the angle from
  \<open>atan2\<close>) is taken exactly. Python ints are modelled as \<open>int\<close>; the two list indices \<open>color_index\<close> and
  \<open>buffer_index\<close>, which the program only ever sets to \<open>0\<close> or to a remainder
  \<open>(i + 1) % len\<close>, are modelled as \<open>nat\<close>.
\<close>

type_synonym color = "int \<times> int \<times> int"

definition NUM_PIXELS :: nat where "NUM_PIXELS = 7"

definition ANGLE_THRESHOLD :: real where "ANGLE_THRESHOLD = 35"
definition MOVEMENT_THRESHOLD :: real where "MOVEMENT_THRESHOLD = 8 / 10"

definition FADE_DURATION :: real where "FADE_DURATION = 500"
definition BLAST_DURATION :: real where "BLAST_DURATION = 1500"
definition BLAST_COOLDOWN :: real where "BLAST_COOLDOWN = 1000"
definition ANGLE_CHECK_INTERVAL :: real where "ANGLE_CHECK_INTERVAL = 50"

definition LONG_PRESS_THRESHOLD :: real where "LONG_PRESS_THRESHOLD = 1000"
definition VERY_LONG_PRESS_THRESHOLD :: real where "VERY_LONG_PRESS_THRESHOLD = 5000"
definition EXTRA_LONG_PRESS_THRESHOLD :: real where "EXTRA_LONG_PRESS_THRESHOLD = 8000"

definition RED :: color where "RED = (255, 0, 0)"
definition YELLOW :: color where "YELLOW = (255, 255, 0)"
definition GREEN :: color where "GREEN = (0, 255, 0)"
definition CYAN :: color where "CYAN = (0, 255, 255)"
definition BLUE :: color where "BLUE = (0, 0, 255)"
definition PURPLE :: color where "PURPLE = (255, 0, 255)"
definition WHITE :: color where "WHITE = (255, 255, 255)"
definition ORANGE :: color where "ORANGE = (255, 128, 0)"

definition COLORS :: "color list" where
  "COLORS = [WHITE, RED, BLUE, CYAN, YELLOW, GREEN, PURPLE, ORANGE]"

section \<open>State\<close>

datatype RepulsorState =
  OFF | FADING_ON | ON | FADING_OFF | BLAST | ALWAYS_ON | COLOR_CHANGE | SHUTDOWN

text \<open>Calls made to the audio collaborator, in the order they are issued.\<close>

datatype audio_cmd = Stop | Play nat bool

text \<open>The two non-\<open>None\<close> results of \<open>check_arm_angle\<close>: \<open>'raise'\<close> and \<open>'lower'\<close>.\<close>

datatype motion = Raise | Lower

text \<open>The only exception the modelled code can raise is an out-of-range list store.\<close>

datatype py_error = IndexError

text \<open>
  The module-level variables, bundled. \<open>pixels\<close> is the frame held by the NeoPixel
  object, \<open>rgb_led\<close> the colour last passed to \<open>set_rgb_led\<close>, \<open>audio_log\<close> the calls
  to \<open>audio.stop\<close> and \<open>play_wav\<close> so far.
\<close>

record glove =
  current_state :: RepulsorState
  color_index :: nat
  current_color :: color
  fade_start_time :: real
  blast_start_time :: real
  last_angle_check_time :: real
  last_blast_time :: real
  button_press_start_time :: real
  angle_buffer :: "real list"
  buffer_index :: nat
  last_filtered_angle :: real
  blast_triggered :: bool
  pixels :: "color list"
  rgb_led :: color
  audio_log :: "audio_cmd list"

definition initial_state :: glove where
  "initial_state =
     \<lparr> current_state = OFF,
       color_index = 0,
       current_color = COLORS ! 0,
       fade_start_time = 0,
       blast_start_time = 0,
       last_angle_check_time = 0,
       last_blast_time = 0,
       button_press_start_time = 0,
       angle_buffer = replicate 20 0,
       buffer_index = 0,
       last_filtered_angle = 0,
       blast_triggered = False,
       pixels = replicate NUM_PIXELS (0, 0, 0),
       rgb_led = COLORS ! 0,
       audio_log = [] \<rparr>"

section \<open>Library functions used by the code\<close>

text \<open>\<open>int(x)\<close> on a float: truncation towards zero.\<close>

definition py_int :: "real \<Rightarrow> int" where
  "py_int r = (if r < 0 then \<lceil>r\<rceil> else \<lfloor>r\<rfloor>)"

text \<open>\<open>math.atan2(y, x)\<close> on reals (signed zeros are not distinguished).\<close>

definition atan2 :: "real \<Rightarrow> real \<Rightarrow> real" where
  "atan2 y x =
     (if 0 < x then arctan (y / x)
      else if x < 0 then (if 0 \<le> y then arctan (y / x) + pi else arctan (y / x) - pi)
      else if 0 < y then pi / 2
      else if y < 0 then - (pi / 2)
      else 0)"

text \<open>
  The arithmetic of the angle filter is modelled with its rounding. A Python float is an
  IEEE 754 double: a real \<open>m * 2 ^ e\<close> with an integer \<open>m\<close> of at most 53 bits and
  \<open>e \<ge> -1074\<close>. The sum and the quotient of two floats are the exact results rounded
  to the nearest float, ties to the even mantissa (\<open>fl\<close>); overflow to infinity, which
  needs magnitudes of \<open>2 ^ 1024\<close>, is left out. \<open>ulp_exp x\<close> is the exponent of the last
  mantissa bit of the floats next to \<open>x\<close>.
\<close>

definition round_even :: "real \<Rightarrow> int" where
  "round_even y =
     (let f = \<lfloor>y\<rfloor>; r = y - of_int f
      in if r < 1 / 2 then f
         else if 1 / 2 < r then f + 1
         else if even f then f else f + 1)"

definition ulp_exp :: "real \<Rightarrow> int" where
  "ulp_exp x = max (\<lfloor>log 2 \<bar>x\<bar>\<rfloor> - 52) (- 1074)"

definition fl :: "real \<Rightarrow> real" where
  "fl x = (if x = 0 then 0
           else of_int (round_even (x / 2 powi ulp_exp x)) * 2 powi ulp_exp x)"

text \<open>\<open>a + b\<close> and \<open>a / b\<close> on floats.\<close>

definition fadd :: "real \<Rightarrow> real \<Rightarrow> real" where
  "fadd a b = fl (a + b)"

definition fdiv :: "real \<Rightarrow> real \<Rightarrow> real" where
  "fdiv a b = fl (a / b)"

text \<open>\<open>sum(xs)\<close>: the items are added from left to right, starting from 0.\<close>

definition fsum :: "real list \<Rightarrow> real" where
  "fsum xs = foldl fadd 0 xs"

text \<open>\<open>pixels.fill(c)\<close>: every pixel of the ring gets the colour.\<close>

definition fill :: "color \<Rightarrow> color list" where
  "fill c = replicate NUM_PIXELS c"

section \<open>Motion processing\<close>

definition calculate_moving_average :: "glove \<Rightarrow> real \<Rightarrow> py_error + (real \<times> glove)" where
  "calculate_moving_average st new_value =
     (if buffer_index st < length (angle_buffer st) then
        (let buf = (angle_buffer st)[buffer_index st := new_value];
             st' = st\<lparr>angle_buffer := buf,
                       buffer_index := (buffer_index st + 1) mod length buf\<rparr>
         in Inr (fdiv (fsum buf) (real (length buf)), st'))
      else Inl IndexError)"

text \<open>
  \<open>now\<close> is the reading of \<open>time.monotonic() * 1000\<close> and \<open>sample\<close> the reading of
  \<open>lis3dh.acceleration\<close> the function takes.
\<close>

definition check_blast_gesture :: "glove \<Rightarrow> real \<Rightarrow> real \<times> real \<times> real \<Rightarrow> bool" where
  "check_blast_gesture st now sample =
     (if current_state st \<noteq> ON then False
      else if blast_triggered st then False
      else if now - last_blast_time st < BLAST_COOLDOWN then False
      else (case sample of (x, y, z) \<Rightarrow> if 65 / 10 < x then True else False))"

definition check_arm_angle ::
  "glove \<Rightarrow> real \<Rightarrow> real \<times> real \<times> real \<Rightarrow> py_error + (motion option \<times> glove)" where
  "check_arm_angle st now sample =
     (if now - last_angle_check_time st < ANGLE_CHECK_INTERVAL then Inr (None, st)
      else
        (let st1 = st\<lparr>last_angle_check_time := now\<rparr>;
             angle = (case sample of (x, y, z) \<Rightarrow> atan2 y z * 180 / pi)
         in case calculate_moving_average st1 angle of
              Inl e \<Rightarrow> Inl e
            | Inr (filtered_angle, st2) \<Rightarrow>
                if \<bar>filtered_angle - last_filtered_angle st2\<bar> < MOVEMENT_THRESHOLD
                then Inr (None, st2)
                else
                  (let result =
                         (if filtered_angle \<le> ANGLE_THRESHOLD \<and> current_state st2 = OFF
                          then Some Raise
                          else if ANGLE_THRESHOLD < filtered_angle \<and> current_state st2 = ON
                          then Some Lower
                          else None)
                   in Inr (result, st2\<lparr>last_filtered_angle := filtered_angle\<rparr>))))"

section \<open>LED effects\<close>

text \<open>\<open>tuple(int(c * brightness / 255) for c in current_color)\<close>\<close>

definition scale_color :: "int \<Rightarrow> color \<Rightarrow> color" where
  "scale_color brightness col =
     (case col of (r, g, b) \<Rightarrow>
        (py_int (real_of_int (r * brightness) / 255),
         py_int (real_of_int (g * brightness) / 255),
         py_int (real_of_int (b * brightness) / 255)))"

text \<open>
  One frame of the blast flicker. \<open>rnd i\<close> is the pair of draws
  \<open>(random.randint(100, 150), random.randint(0, 2))\<close> made for pixel \<open>i\<close>.
\<close>

definition flicker_frame :: "(nat \<Rightarrow> int \<times> int) \<Rightarrow> color list" where
  "flicker_frame rnd =
     map (\<lambda>i. case rnd i of (flicker, pick) \<Rightarrow>
                 if pick = 0 then (flicker, flicker div 2, 0)
                 else (flicker, flicker, flicker))
         [0..<NUM_PIXELS]"

definition update_leds :: "glove \<Rightarrow> real \<Rightarrow> (nat \<Rightarrow> int \<times> int) \<Rightarrow> glove" where
  "update_leds st current_time rnd =
     (case current_state st of
        OFF \<Rightarrow> st\<lparr>pixels := fill (0, 0, 0)\<rparr>
      | FADING_ON \<Rightarrow>
          (let elapsed = current_time - fade_start_time st in
           if elapsed < FADE_DURATION then
             (let brightness = py_int ((elapsed / FADE_DURATION) * 255)
              in st\<lparr>pixels := fill (scale_color brightness (current_color st))\<rparr>)
           else st\<lparr>pixels := fill (current_color st), current_state := ON\<rparr>)
      | ON \<Rightarrow> st\<lparr>pixels := fill (current_color st)\<rparr>
      | ALWAYS_ON \<Rightarrow> st\<lparr>pixels := fill (current_color st)\<rparr>
      | FADING_OFF \<Rightarrow>
          (let elapsed = current_time - fade_start_time st in
           if elapsed < FADE_DURATION then
             (let brightness = 255 - py_int ((elapsed / FADE_DURATION) * 255)
              in st\<lparr>pixels := fill (scale_color brightness (current_color st))\<rparr>)
           else st\<lparr>pixels := fill (0, 0, 0), current_state := OFF\<rparr>)
      | BLAST \<Rightarrow>
          (let elapsed = current_time - blast_start_time st in
           if elapsed < BLAST_DURATION then st\<lparr>pixels := flicker_frame rnd\<rparr>
           else st\<lparr>blast_triggered := False, current_state := ON,
                    pixels := fill (current_color st)\<rparr>)
      | COLOR_CHANGE \<Rightarrow> st
      | SHUTDOWN \<Rightarrow> st)"

section \<open>Button handling\<close>

text \<open>
  The branch of the \<open>if\<close>/\<open>elif\<close> chain on \<open>press_duration\<close> in \<open>handle_button\<close>,
  named after the comments of the four branches.
\<close>

datatype PressBucket = Short | Long | VeryLong | ExtraLong

definition press_bucket :: "real \<Rightarrow> PressBucket" where
  "press_bucket press_duration =
     (if EXTRA_LONG_PRESS_THRESHOLD \<le> press_duration then ExtraLong
      else if VERY_LONG_PRESS_THRESHOLD \<le> press_duration then VeryLong
      else if LONG_PRESS_THRESHOLD \<le> press_duration then Long
      else Short)"

text \<open>The body of each branch of the chain.\<close>

definition on_release :: "glove \<Rightarrow> real \<Rightarrow> glove" where
  "on_release st press_duration =
     (case press_bucket press_duration of
        ExtraLong \<Rightarrow> st
      | VeryLong \<Rightarrow>
          (if current_state st = ALWAYS_ON then st\<lparr>current_state := OFF\<rparr>
           else st\<lparr>current_state := ALWAYS_ON, pixels := fill (current_color st)\<rparr>)
      | Long \<Rightarrow>
          (if current_state st \<noteq> COLOR_CHANGE
           then st\<lparr>audio_log := audio_log st @ [Stop, Play 3 True],
                    current_state := COLOR_CHANGE\<rparr>
           else st\<lparr>audio_log := audio_log st @ [Stop], current_state := OFF\<rparr>)
      | Short \<Rightarrow>
          (if current_state st = COLOR_CHANGE then
             (let i = (color_index st + 1) mod length COLORS;
                  c = COLORS ! i
              in st\<lparr>color_index := i, current_color := c, pixels := fill c, rgb_led := c\<rparr>)
           else st))"

text \<open>
  \<open>pressed\<close> and \<open>released\<close> are \<open>button.pressed\<close> and \<open>button.released\<close> after
  \<open>button.update()\<close>, \<open>current_time\<close> the clock reading.
\<close>

definition handle_button :: "glove \<Rightarrow> bool \<Rightarrow> bool \<Rightarrow> real \<Rightarrow> glove" where
  "handle_button st pressed released current_time =
     (let st1 = (if pressed \<and> button_press_start_time st = 0
                 then st\<lparr>button_press_start_time := current_time\<rparr> else st)
      in if released \<and> 0 < button_press_start_time st1 then
           (let press_duration = current_time - button_press_start_time st1
            in on_release (st1\<lparr>button_press_start_time := 0\<rparr>) press_duration)
         else st1)"

section \<open>Main loop\<close>

text \<open>
  Everything one iteration of the \<open>while True\<close> loop reads from outside: the button
  edges, one clock reading per call of \<open>time.monotonic()\<close>, one accelerometer sample per
  read that affects the state, and the random draws of the flicker.
\<close>

record tick_input =
  pressed :: bool
  released :: bool
  t_button :: real
  t_angle :: real
  accel_angle :: "real \<times> real \<times> real"
  t_fade :: real
  t_gesture :: real
  accel_gesture :: "real \<times> real \<times> real"
  t_blast :: real
  t_leds :: real
  rnd :: "nat \<Rightarrow> int \<times> int"

text \<open>Lines 401 to 417: the arm-angle check and the two transitions it drives.\<close>

definition motion_phase :: "glove \<Rightarrow> tick_input \<Rightarrow> py_error + glove" where
  "motion_phase st inp =
     (if current_state st \<noteq> ALWAYS_ON \<and> current_state st \<noteq> BLAST then
        (case check_arm_angle st (t_angle inp) (accel_angle inp) of
           Inl e \<Rightarrow> Inl e
         | Inr (arm_motion, st1) \<Rightarrow>
             (case arm_motion of
                Some Raise \<Rightarrow>
                  Inr (st1\<lparr>audio_log := audio_log st1 @ [Play 1 False],
                           fade_start_time := t_fade inp,
                           current_state := FADING_ON\<rparr>)
              | Some Lower \<Rightarrow>
                  Inr (st1\<lparr>audio_log := audio_log st1 @ [Play 2 False],
                           fade_start_time := t_fade inp,
                           current_state := FADING_OFF\<rparr>)
              | None \<Rightarrow> Inr st1))
      else Inr st)"

text \<open>Lines 424 to 431: the blast entry.\<close>

definition blast_phase :: "glove \<Rightarrow> tick_input \<Rightarrow> glove" where
  "blast_phase st inp =
     (if check_blast_gesture st (t_gesture inp) (accel_gesture inp) then
        st\<lparr>blast_triggered := True,
           blast_start_time := t_blast inp,
           last_blast_time := t_blast inp,
           current_state := BLAST,
           audio_log := audio_log st @ [Play 0 False]\<rparr>
      else st)"

text \<open>One iteration of the loop; \<open>Inl\<close> when the iteration raises.\<close>

definition tick :: "glove \<Rightarrow> tick_input \<Rightarrow> py_error + glove" where
  "tick st inp =
     (let st1 = handle_button st (pressed inp) (released inp) (t_button inp) in
      if current_state st1 = COLOR_CHANGE \<or> current_state st1 = SHUTDOWN then Inr st1
      else
        (case motion_phase st1 inp of
           Inl e \<Rightarrow> Inl e
         | Inr st2 \<Rightarrow> Inr (update_leds (blast_phase st2 inp) (t_leds inp) (rnd inp))))"

text \<open>
  The states at the loop head during an execution on the given inputs, the starting state
  first; the list ends early if an iteration raises.
\<close>

fun run :: "glove \<Rightarrow> tick_input list \<Rightarrow> glove list" where
  "run st [] = [st]"
| "run st (inp # inps) =
     st # (case tick st inp of Inl e \<Rightarrow> [] | Inr st' \<Rightarrow> run st' inps)"

section \<open>Executions and auxiliary notions\<close>

text \<open>
  A press of the button as the two calls of \<open>handle_button\<close> that see its edges: the
  pressed edge at \<open>t_down\<close>, the released edge at \<open>t_up\<close>.
\<close>

definition press :: "glove \<Rightarrow> real \<times> real \<Rightarrow> glove" where
  "press st p =
     (case p of (t_down, t_up) \<Rightarrow>
        handle_button (handle_button st True False t_down) False True t_up)"





text \<open>The palette index is in range and the current colour is the palette entry at it.\<close>

definition color_ok :: "glove \<Rightarrow> bool" where
  "color_ok st = (color_index st < 8 \<and> current_color st = COLORS ! color_index st)"

subsection \<open>Sample states and inputs\<close>

text \<open>
  Three iterations: the arm is raised at 100 ms (sample angle 90 degrees, filtered 4.5), the
  fade is over at 700 ms, and a thrust with x = 7 arrives at 2000 ms.
\<close>

definition demo_inputs :: "tick_input list" where
  "demo_inputs =
     [\<lparr>pressed = False, released = False, t_button = 100, t_angle = 100,
       accel_angle = (0, 1, 0), t_fade = 100, t_gesture = 100, accel_gesture = (0, 1, 0),
       t_blast = 100, t_leds = 100, rnd = (\<lambda>i. (120, 1))\<rparr>,
      \<lparr>pressed = False, released = False, t_button = 700, t_angle = 700,
       accel_angle = (0, 1, 0), t_fade = 700, t_gesture = 700, accel_gesture = (0, 1, 0),
       t_blast = 700, t_leds = 700, rnd = (\<lambda>i. (120, 1))\<rparr>,
      \<lparr>pressed = False, released = False, t_button = 2000, t_angle = 2000,
       accel_angle = (7, 1, 0), t_fade = 2000, t_gesture = 2000, accel_gesture = (7, 1, 0),
       t_blast = 2000, t_leds = 2000, rnd = (\<lambda>i. (120, 1))\<rparr>]"

text \<open>
  Four iterations with the arm at rest: a press of 1500 ms (long: colour change mode),
  then a press of 100 ms (short: next colour).
\<close>

definition color_demo :: "tick_input list" where
  "color_demo =
     [\<lparr>pressed = True, released = False, t_button = 100, t_angle = 100,
       accel_angle = (0, 0, 1), t_fade = 100, t_gesture = 100, accel_gesture = (0, 0, 1),
       t_blast = 100, t_leds = 100, rnd = (\<lambda>i. (120, 1))\<rparr>,
      \<lparr>pressed = False, released = True, t_button = 1600, t_angle = 1600,
       accel_angle = (0, 0, 1), t_fade = 1600, t_gesture = 1600, accel_gesture = (0, 0, 1),
       t_blast = 1600, t_leds = 1600, rnd = (\<lambda>i. (120, 1))\<rparr>,
      \<lparr>pressed = True, released = False, t_button = 2000, t_angle = 2000,
       accel_angle = (0, 0, 1), t_fade = 2000, t_gesture = 2000, accel_gesture = (0, 0, 1),
       t_blast = 2000, t_leds = 2000, rnd = (\<lambda>i. (120, 1))\<rparr>,
      \<lparr>pressed = False, released = True, t_button = 2100, t_angle = 2100,
       accel_angle = (0, 0, 1), t_fade = 2100, t_gesture = 2100, accel_gesture = (0, 0, 1),
       t_blast = 2100, t_leds = 2100, rnd = (\<lambda>i. (120, 1))\<rparr>]"

text \<open>The repulsor on, the arm held steady at a filtered angle of 90 degrees.\<close>

definition steady_high :: glove where
  "steady_high = initial_state\<lparr>current_state := ON, angle_buffer := replicate 20 90,
                                last_filtered_angle := 90\<rparr>"


text \<open>A fade-on that started at 1000 ms.\<close>

definition fading :: glove where
  "fading = initial_state\<lparr>current_state := FADING_ON, fade_start_time := 1000\<rparr>"

section \<open>Evaluation and frame lemmas\<close>

lemmas thresholds =
  LONG_PRESS_THRESHOLD_def VERY_LONG_PRESS_THRESHOLD_def EXTRA_LONG_PRESS_THRESHOLD_def

lemmas eval_defs =
  tick_def handle_button_def on_release_def press_bucket_def motion_phase_def
  check_arm_angle_def calculate_moving_average_def blast_phase_def check_blast_gesture_def
  update_leds_def scale_color_def flicker_frame_def fill_def py_int_def atan2_def Let_def
  initial_state_def COLORS_def WHITE_def NUM_PIXELS_def
  ANGLE_CHECK_INTERVAL_def MOVEMENT_THRESHOLD_def ANGLE_THRESHOLD_def FADE_DURATION_def
  BLAST_DURATION_def BLAST_COOLDOWN_def thresholds

lemma length_COLORS: "length COLORS = 8"
  by (simp add: COLORS_def)

lemma replicate_20:
  "replicate 20 x = [x, x, x, x, x, x, x, x, x, x, x, x, x, x, x, x, x, x, x, x]"
  by (simp add: eval_nat_numeral)

subsection \<open>Rounding to the nearest float\<close>

lemma fl_zero: "fl 0 = 0"
  by (simp add: fl_def)

lemma round_even_of_int: "round_even (of_int m) = m"
  by (simp add: round_even_def)

lemma powr_powi: "2 powr real_of_int k = (2::real) powi k"
  by (simp add: powr_real_of_int')




lemma ulp_exp_le:
  assumes "x \<noteq> 0" and "\<bar>x\<bar> < 2 powi (e + 53)" and "- 1074 \<le> e"
  shows "ulp_exp x \<le> e"
proof -
  have "\<bar>x\<bar> < 2 powr real_of_int (e + 53)"
    using assms(2) by (simp only: powr_powi)
  then have "log 2 \<bar>x\<bar> < real_of_int (e + 53)"
    using assms(1) by (simp add: log_less_iff)
  then have "\<lfloor>log 2 \<bar>x\<bar>\<rfloor> < e + 53"
    by linarith
  with assms(3) show ?thesis by (simp add: ulp_exp_def)
qed

lemma fl_representable:
  assumes "\<bar>m\<bar> < 2 ^ 53" and "- 1074 \<le> e"
  shows "fl (of_int m * 2 powi e) = of_int m * 2 powi e"
proof (cases "m = 0")
  case True
  then show ?thesis by (simp add: fl_zero)
next
  case False
  define x where "x = real_of_int m * 2 powi e"
  define E where "E = ulp_exp x"
  have nz: "x \<noteq> 0" using False by (simp add: x_def)
  have "\<bar>x\<bar> = real_of_int \<bar>m\<bar> * 2 powi e"
    by (simp add: x_def abs_mult)
  also have "\<dots> < 2 ^ 53 * 2 powi e"
  proof -
    have "real_of_int \<bar>m\<bar> < 2 ^ 53"
      using assms(1) by (metis of_int_less_iff of_int_numeral of_int_power)
    then show ?thesis by simp
  qed
  also have "\<dots> = 2 powi (e + 53)"
    by (simp add: power_int_add)
  finally have "E \<le> e"
    unfolding E_def using nz assms(2) by (intro ulp_exp_le)
  then obtain d where "e = E + int d"
    using zle_iff_zadd by blast
  then have pw: "(2::real) powi e = 2 powi E * 2 ^ d"
    by (simp add: power_int_add)
  have "x / 2 powi E = real_of_int (m * 2 ^ d)"
    by (simp add: x_def pw)
  then have "round_even (x / 2 powi E) = m * 2 ^ d"
    by (simp only: round_even_of_int)
  then have "fl x = real_of_int (m * 2 ^ d) * 2 powi E"
    using nz by (simp add: fl_def E_def)
  also have "\<dots> = x"
    by (simp add: x_def pw)
  finally show ?thesis by (simp add: x_def)
qed

lemma fl_numeral: "numeral n < (2::int) ^ 53 \<Longrightarrow> fl (numeral n) = numeral n"
  using fl_representable [of "numeral n" 0] by simp

lemma fl_half: "numeral n < (2::int) ^ 53 \<Longrightarrow> fl (numeral n / 2) = numeral n / 2"
  using fl_representable [of "numeral n" "- 1"] by (simp add: power_int_minus field_simps)

lemmas float_eval = fsum_def fadd_def fdiv_def fl_zero fl_numeral fl_half

subsection \<open>What each function leaves alone\<close>

lemma check_arm_angle_keeps:
  assumes "check_arm_angle st now s = Inr (r, st')"
  shows "current_state st' = current_state st \<and> color_index st' = color_index st
         \<and> current_color st' = current_color st"
  using assms
  by (auto simp add: check_arm_angle_def calculate_moving_average_def Let_def
      split: if_splits prod.splits)

lemma motion_phase_cases:
  assumes "motion_phase st inp = Inr st'"
  obtains "st' = st"
  | r st1 where "check_arm_angle st (t_angle inp) (accel_angle inp) = Inr (r, st1)"
      and "st' = st1 \<or> st' = st1\<lparr>audio_log := audio_log st1 @ [Play 1 False],
                 fade_start_time := t_fade inp, current_state := FADING_ON\<rparr>
         \<or> st' = st1\<lparr>audio_log := audio_log st1 @ [Play 2 False],
                 fade_start_time := t_fade inp, current_state := FADING_OFF\<rparr>"
  using assms
  by (auto simp add: motion_phase_def split: if_splits sum.splits option.splits motion.splits)

lemma motion_phase_keeps_color:
  assumes "motion_phase st inp = Inr st'"
  shows "color_index st' = color_index st \<and> current_color st' = current_color st"
  using assms
proof (cases rule: motion_phase_cases)
  case 1
  then show ?thesis by simp
next
  case (2 r st1)
  from check_arm_angle_keeps [OF 2(1)] 2(2) show ?thesis by auto
qed

lemma blast_phase_keeps_color:
  "color_index (blast_phase st inp) = color_index st
   \<and> current_color (blast_phase st inp) = current_color st"
  by (simp add: blast_phase_def)

lemma update_leds_keeps_color:
  "color_index (update_leds st now r) = color_index st
   \<and> current_color (update_leds st now r) = current_color st"
  by (simp add: update_leds_def Let_def split: RepulsorState.splits)

lemma tick_cases:
  assumes "tick st inp = Inr st'"
  obtains "st' = handle_button st (pressed inp) (released inp) (t_button inp)"
  | st2 where
      "motion_phase (handle_button st (pressed inp) (released inp) (t_button inp)) inp = Inr st2"
      and "st' = update_leds (blast_phase st2 inp) (t_leds inp) (rnd inp)"
  using assms
  by (auto simp add: tick_def Let_def split: if_splits sum.splits)

lemma tick_keeps_color:
  assumes "tick st inp = Inr st'"
  shows "color_index st' = color_index (handle_button st (pressed inp) (released inp) (t_button inp))
    \<and> current_color st' = current_color (handle_button st (pressed inp) (released inp) (t_button inp))"
  using assms
proof (cases rule: tick_cases)
  case 1
  then show ?thesis by simp
next
  case (2 st2)
  from motion_phase_keeps_color [OF 2(1)] 2(2) show ?thesis
    by (simp add: update_leds_keeps_color blast_phase_keeps_color)
qed

subsection \<open>State changes\<close>

lemma handle_button_state:
  "current_state (handle_button st prs rel now) = current_state st
   \<or> current_state (handle_button st prs rel now) = OFF
   \<or> current_state (handle_button st prs rel now) = ALWAYS_ON
   \<or> current_state (handle_button st prs rel now) = COLOR_CHANGE"
  by (simp add: handle_button_def on_release_def Let_def split: PressBucket.splits)

lemma motion_phase_state:
  assumes "motion_phase st inp = Inr st'"
  shows "current_state st' = current_state st \<or> current_state st' = FADING_ON
         \<or> current_state st' = FADING_OFF"
  using assms
proof (cases rule: motion_phase_cases)
  case 1
  then show ?thesis by simp
next
  case (2 r st1)
  from check_arm_angle_keeps [OF 2(1)] 2(2) show ?thesis by auto
qed

lemma blast_phase_state:
  "current_state (blast_phase st inp) = current_state st
   \<or> current_state st = ON \<and> current_state (blast_phase st inp) = BLAST"
  by (simp add: blast_phase_def check_blast_gesture_def)

lemma update_leds_state:
  "current_state (update_leds st now r) = BLAST \<Longrightarrow> current_state st = BLAST"
  by (simp add: update_leds_def Let_def split: RepulsorState.splits if_splits)

lemma tick_blast:
  assumes "tick st inp = Inr st'" and "current_state st' = BLAST"
  shows "current_state st = ON \<or> current_state st = BLAST"
  using assms(1)
proof (cases rule: tick_cases)
  case 1
  with assms(2) handle_button_state [of st "pressed inp" "released inp" "t_button inp"]
  show ?thesis by auto
next
  case (2 st2)
  let ?st1 = "handle_button st (pressed inp) (released inp) (t_button inp)"
  from 2(2) assms(2) have "current_state (blast_phase st2 inp) = BLAST"
    by (simp add: update_leds_state)
  with blast_phase_state [of st2 inp] have "current_state st2 = ON \<or> current_state st2 = BLAST"
    by auto
  with motion_phase_state [OF 2(1)] have "current_state ?st1 = ON \<or> current_state ?st1 = BLAST"
    by auto
  with handle_button_state [of st "pressed inp" "released inp" "t_button inp"]
  show ?thesis by auto
qed

lemma run_nonempty: "run st inps \<noteq> []"
  by (cases inps) simp_all

lemma run_hd: "run st inps ! 0 = st"
  by (cases inps) simp_all

lemma run_blast_pred:
  assumes "Suc k < length (run st inps)"
    and "current_state (run st inps ! Suc k) = BLAST"
  shows "current_state (run st inps ! k) = ON \<or> current_state (run st inps ! k) = BLAST"
  using assms
proof (induction inps arbitrary: st k)
  case Nil
  then show ?case by simp
next
  case (Cons inp inps)
  show ?case
  proof (cases "tick st inp")
    case (Inl e)
    with Cons.prems show ?thesis by simp
  next
    case (Inr st')
    show ?thesis
    proof (cases k)
      case 0
      with Cons.prems Inr have "current_state st' = BLAST"
        by (simp add: run_hd)
      with tick_blast [OF Inr] 0 show ?thesis by simp
    next
      case (Suc j)
      with Cons.prems Inr Cons.IH [of j st'] show ?thesis by simp
    qed
  qed
qed

lemma run_blast_via_on:
  assumes "k < length (run st inps)"
    and "current_state (run st inps ! k) = BLAST"
    and "current_state st \<noteq> BLAST"
  shows "\<exists>j<k. current_state (run st inps ! j) = ON"
  using assms
proof (induction k)
  case 0
  then show ?case by (simp add: run_hd)
next
  case (Suc k)
  from run_blast_pred [OF Suc.prems(1) Suc.prems(2)]
  consider "current_state (run st inps ! k) = ON" | "current_state (run st inps ! k) = BLAST"
    by blast
  then show ?case
  proof cases
    case 1
    then show ?thesis by blast
  next
    case 2
    with Suc.IH Suc.prems obtain j where "j < k" "current_state (run st inps ! j) = ON"
      by auto
    then show ?thesis using less_Suc_eq by blast
  qed
qed

subsection \<open>The palette index and the current colour\<close>

lemma handle_button_color_cases:
  "color_index (handle_button st prs rel now) = color_index st
     \<and> current_color (handle_button st prs rel now) = current_color st
   \<or> color_index (handle_button st prs rel now) = (color_index st + 1) mod 8
     \<and> current_color (handle_button st prs rel now) = COLORS ! ((color_index st + 1) mod 8)"
  by (simp add: handle_button_def on_release_def Let_def length_COLORS split: PressBucket.splits)

lemma handle_button_short_color_change:
  assumes "rel" and "0 < button_press_start_time st"
    and "now - button_press_start_time st < 1000"
    and "current_state st = COLOR_CHANGE"
  shows "handle_button st prs rel now =
           st\<lparr>button_press_start_time := 0,
              color_index := (color_index st + 1) mod 8,
              current_color := COLORS ! ((color_index st + 1) mod 8),
              pixels := fill (COLORS ! ((color_index st + 1) mod 8)),
              rgb_led := COLORS ! ((color_index st + 1) mod 8)\<rparr>"
  using assms
  by (simp add: handle_button_def on_release_def press_bucket_def thresholds Let_def length_COLORS)

lemma handle_button_index_unchanged:
  assumes "current_state st \<noteq> COLOR_CHANGE \<or> \<not> rel
           \<or> (0 < button_press_start_time st \<and> 1000 \<le> now - button_press_start_time st)
           \<or> (button_press_start_time st \<le> 0 \<and> \<not> prs)"
  shows "color_index (handle_button st prs rel now) = color_index st
         \<and> current_color (handle_button st prs rel now) = current_color st"
  using assms
  by (auto simp add: handle_button_def on_release_def press_bucket_def thresholds Let_def)

lemma press_short_color_change:
  assumes "current_state st = COLOR_CHANGE" and "button_press_start_time st = 0"
    and "0 < d" and "u - d < 1000"
  shows "color_index (press st (d, u)) = (color_index st + 1) mod 8
         \<and> current_state (press st (d, u)) = COLOR_CHANGE
         \<and> button_press_start_time (press st (d, u)) = 0"
proof -
  let ?st1 = "handle_button st True False d"
  have st1: "?st1 = st\<lparr>button_press_start_time := d\<rparr>"
    using assms by (simp add: handle_button_def)
  have "handle_button ?st1 False True u =
          ?st1\<lparr>button_press_start_time := 0,
              color_index := (color_index ?st1 + 1) mod 8,
              current_color := COLORS ! ((color_index ?st1 + 1) mod 8),
              pixels := fill (COLORS ! ((color_index ?st1 + 1) mod 8)),
              rgb_led := COLORS ! ((color_index ?st1 + 1) mod 8)\<rparr>"
    by (rule handle_button_short_color_change) (simp_all add: st1 assms)
  then show ?thesis by (simp add: press_def st1 assms)
qed

lemma presses_short_color_change:
  assumes "current_state st = COLOR_CHANGE" and "button_press_start_time st = 0"
    and "\<forall>p\<in>set ps. 0 < fst p \<and> snd p - fst p < 1000"
    and "color_index st < 8"
  shows "color_index (foldl press st ps) = (color_index st + length ps) mod 8
         \<and> current_state (foldl press st ps) = COLOR_CHANGE
         \<and> button_press_start_time (foldl press st ps) = 0"
  using assms
proof (induction ps arbitrary: st)
  case Nil
  then show ?case by simp
next
  case (Cons p ps)
  obtain d u where p: "p = (d, u)" by (cases p)
  from Cons.prems p have du: "0 < d" "u - d < 1000" by auto
  note step = press_short_color_change [OF Cons.prems(1) Cons.prems(2) du]
  from Cons.prems(3) have rest: "\<forall>p\<in>set ps. 0 < fst p \<and> snd p - fst p < 1000" by simp
  from Cons.IH [of "press st (d, u)"] step rest
  have "color_index (foldl press (press st (d, u)) ps)
          = (color_index (press st (d, u)) + length ps) mod 8
        \<and> current_state (foldl press (press st (d, u)) ps) = COLOR_CHANGE
        \<and> button_press_start_time (foldl press (press st (d, u)) ps) = 0"
    by simp
  moreover have "((color_index st + 1) mod 8 + length ps) mod 8
                 = (color_index st + length (p # ps)) mod 8"
    by (simp add: mod_simps)
  ultimately show ?case using step by (simp add: p)
qed

lemma tick_color_ok:
  assumes "tick st inp = Inr st'" and "color_ok st"
  shows "color_ok st'"
  using tick_keeps_color [OF assms(1)] assms(2)
    handle_button_color_cases [of st "pressed inp" "released inp" "t_button inp"]
  by (auto simp add: color_ok_def)

lemma run_color_ok:
  assumes "color_ok st" and "s \<in> set (run st inps)"
  shows "color_ok s"
  using assms
proof (induction inps arbitrary: st)
  case Nil
  then show ?case by simp
next
  case (Cons inp inps)
  then show ?case
    by (cases "tick st inp") (auto dest: tick_color_ok)
qed

lemma color_ok_initial: "color_ok initial_state"
  by (simp add: color_ok_def initial_state_def)

lemma color_ok_member: "color_ok st \<Longrightarrow> current_color st \<in> set COLORS"
  by (simp add: color_ok_def length_COLORS)

subsection \<open>The filter buffer as a sliding window\<close>














subsection \<open>Rounding error of the mean of equal values\<close>








subsection \<open>Truncation and channel scaling\<close>

lemma py_int_nonneg: "0 \<le> r \<Longrightarrow> py_int r = \<lfloor>r\<rfloor>"
  by (simp add: py_int_def)

lemma scale_color_div:
  assumes "0 \<le> b" and "0 \<le> r" and "0 \<le> g" and "0 \<le> bl"
  shows "scale_color b (r, g, bl) = (r * b div 255, g * b div 255, bl * b div 255)"
proof -
  have "py_int (real_of_int (c * b) / 255) = c * b div 255" if "0 \<le> c" for c
  proof -
    from that assms(1) have "0 \<le> real_of_int (c * b) / 255" by simp
    then have "py_int (real_of_int (c * b) / 255) = \<lfloor>real_of_int (c * b) / real_of_int 255\<rfloor>"
      by (simp add: py_int_nonneg)
    also have "\<dots> = c * b div 255"
      by (simp only: floor_divide_of_int_eq)
    finally show ?thesis .
  qed
  with assms show ?thesis by (simp add: scale_color_def)
qed

section \<open>The blast gesture check\<close>

text \<open>
  C1. \<open>check_blast_gesture\<close> returns true if and only if the state is \<open>ON\<close>, no blast is
  active (\<open>blast_triggered\<close> is false), at least \<open>BLAST_COOLDOWN\<close> = 1000 ms lie between
  \<open>last_blast_time\<close> and the clock reading, and the x acceleration of the sample is
  strictly greater than 6.5; in every other case it returns false.
\<close>

theorem check_blast_gesture_iff:
  "check_blast_gesture st now (x, y, z) =
     (current_state st = ON \<and> \<not> blast_triggered st
      \<and> 1000 \<le> now - last_blast_time st \<and> 65 / 10 < x)"
  by (simp add: check_blast_gesture_def BLAST_COOLDOWN_def not_less)

section \<open>Blast is entered from On only\<close>

text \<open>
  C2. In every execution of the main loop from the initial state (\<open>OFF\<close>), on every
  sequence of inputs, a loop iteration that ends in \<open>BLAST\<close> started in \<open>ON\<close>, unless the
  blast was already running (it started in \<open>BLAST\<close>); and \<open>ON\<close> has been visited before any
  visit of \<open>BLAST\<close>. Inside an iteration the only step that sets \<open>BLAST\<close> is the blast entry,
  and it changes the state only when the state is \<open>ON\<close>.
\<close>

theorem blast_only_from_on:
  assumes "Suc k < length (run initial_state inps)"
    and "current_state (run initial_state inps ! Suc k) = BLAST"
  shows "(current_state (run initial_state inps ! k) = ON
          \<or> current_state (run initial_state inps ! k) = BLAST)
         \<and> (\<exists>j\<le>k. current_state (run initial_state inps ! j) = ON)
         \<and> (current_state (blast_phase st inp) = current_state st
              \<or> current_state st = ON \<and> current_state (blast_phase st inp) = BLAST)"
proof -
  have "current_state initial_state \<noteq> BLAST"
    by (simp add: initial_state_def)
  from run_blast_via_on [OF assms(1) assms(2) this]
  have "\<exists>j\<le>k. current_state (run initial_state inps ! j) = ON"
    by (auto simp add: less_Suc_eq_le)
  with run_blast_pred [OF assms] blast_phase_state [of st inp] show ?thesis by simp
qed

text \<open>
  On the sample inputs the states at the loop head are \<open>OFF\<close>, \<open>FADING_ON\<close>, \<open>ON\<close>,
  \<open>BLAST\<close>: the blast is entered, and entered from \<open>ON\<close>.
\<close>

theorem blast_only_from_on_witness:
  "Suc 2 < length (run initial_state demo_inputs)
   \<and> current_state (run initial_state demo_inputs ! Suc 2) = BLAST
   \<and> current_state (run initial_state demo_inputs ! 2) = ON"
proof -
  have tr: "map current_state (run initial_state demo_inputs) = [OFF, FADING_ON, ON, BLAST]"
    by (simp add: demo_inputs_def eval_defs replicate_20 float_eval)
  have len: "length (run initial_state demo_inputs) = 4"
    using arg_cong [OF tr, of length] by simp
  have h1: "Suc 2 < length (run initial_state demo_inputs)"
    using len by simp
  have h2: "current_state (run initial_state demo_inputs ! Suc 2) = BLAST"
    using arg_cong [OF tr, of "\<lambda>xs. xs ! 3"] len by (simp add: eval_nat_numeral)
  have "current_state (run initial_state demo_inputs ! 2) \<noteq> BLAST"
    using arg_cong [OF tr, of "\<lambda>xs. xs ! 2"] len by (simp add: eval_nat_numeral)
  with blast_only_from_on [OF h1 h2] h1 h2 show ?thesis by simp
qed

section \<open>Press duration buckets\<close>


section \<open>The very long press\<close>

text \<open>
  C4 as stated, that a very long press changes nothing in the states other than \<open>ON\<close>,
  \<open>OFF\<close> and \<open>ALWAYS_ON\<close>, fails: released after 6000 ms during the fade-on, the button
  puts the glove into \<open>ALWAYS_ON\<close>.
\<close>

theorem very_long_press_fading_on_counterexample:
  "current_state
     (handle_button (initial_state\<lparr>current_state := FADING_ON, button_press_start_time := 1000\<rparr>)
        False True 7000) = ALWAYS_ON"
  by (simp add: handle_button_def on_release_def press_bucket_def thresholds initial_state_def)

text \<open>
  C4 (amended). A very long press (duration from 5000 ms to below 8000 ms) sets the state
  to \<open>OFF\<close> when the state is \<open>ALWAYS_ON\<close>, and to \<open>ALWAYS_ON\<close>, filling the ring with the
  current colour, in every other state, \<open>FADING_ON\<close>, \<open>FADING_OFF\<close>, \<open>BLAST\<close>,
  \<open>COLOR_CHANGE\<close> and \<open>SHUTDOWN\<close> included; besides that only the press start is reset.
\<close>

theorem very_long_press_toggles:
  assumes "rel" and "0 < button_press_start_time st"
    and "5000 \<le> now - button_press_start_time st"
    and "now - button_press_start_time st < 8000"
  shows "handle_button st prs rel now =
           (if current_state st = ALWAYS_ON
            then st\<lparr>button_press_start_time := 0, current_state := OFF\<rparr>
            else st\<lparr>button_press_start_time := 0, current_state := ALWAYS_ON,
                     pixels := fill (current_color st)\<rparr>)"
  using assms
  by (simp add: handle_button_def on_release_def press_bucket_def thresholds)

text \<open>During a blast, a press of 6000 ms leads to \<open>ALWAYS_ON\<close>.\<close>

theorem very_long_press_toggles_witness:
  "handle_button (initial_state\<lparr>current_state := BLAST, button_press_start_time := 1000\<rparr>)
        False True 7000 =
   initial_state\<lparr>current_state := ALWAYS_ON, button_press_start_time := 0,
                  pixels := fill (current_color initial_state)\<rparr>"
  using very_long_press_toggles
     [of True "initial_state\<lparr>current_state := BLAST, button_press_start_time := 1000\<rparr>" 7000 False]
  by (simp add: initial_state_def)

section \<open>The angle filter\<close>




section \<open>Hysteresis of the arm-angle check\<close>

text \<open>
  C6. When the filtered angle computed by \<open>check_arm_angle\<close> differs from the last
  recorded filtered angle by strictly less than \<open>MOVEMENT_THRESHOLD\<close> = 0.8, the check
  returns \<open>None\<close>, neither \<open>'raise'\<close> nor \<open>'lower'\<close>, whatever the state and on whichever
  side of \<open>ANGLE_THRESHOLD\<close> the angle lies (and the recorded angle stays as it was).
\<close>

theorem arm_angle_hysteresis:
  assumes "calculate_moving_average (st\<lparr>last_angle_check_time := now\<rparr>)
             (atan2 y z * 180 / pi) = Inr (filtered, st2)"
    and "\<bar>filtered - last_filtered_angle st\<bar> < 8 / 10"
  shows "check_arm_angle st now (x, y, z) =
           Inr (None, if now - last_angle_check_time st < 50 then st else st2)"
proof -
  from assms(1) have "last_filtered_angle st2 = last_filtered_angle st"
    by (auto simp add: calculate_moving_average_def Let_def split: if_splits)
  with assms show ?thesis
    by (simp add: check_arm_angle_def ANGLE_CHECK_INTERVAL_def MOVEMENT_THRESHOLD_def Let_def)
qed

text \<open>
  With the repulsor on and the filtered angle steady at 90 degrees, above the threshold
  of 35, no \<open>'lower'\<close> is returned.
\<close>

theorem arm_angle_hysteresis_witness:
  "current_state steady_high = ON
   \<and> (\<exists>st2. calculate_moving_average (steady_high\<lparr>last_angle_check_time := 100\<rparr>)
               (atan2 1 0 * 180 / pi) = Inr (90, st2)
            \<and> ANGLE_THRESHOLD < 90
            \<and> check_arm_angle steady_high 100 (0, 1, 0) = Inr (None, st2))"
proof -
  obtain st2 where h1: "calculate_moving_average (steady_high\<lparr>last_angle_check_time := 100\<rparr>)
               (atan2 1 0 * 180 / pi) = Inr (90, st2)"
    by (simp add: steady_high_def calculate_moving_average_def initial_state_def atan2_def
        replicate_20 float_eval)
  have h2: "\<bar>90 - last_filtered_angle steady_high\<bar> < 8 / 10"
    by (simp add: steady_high_def)
  from arm_angle_hysteresis [OF h1 h2, of 0]
  have "check_arm_angle steady_high 100 (0, 1, 0) = Inr (None, st2)"
    by (simp add: steady_high_def initial_state_def)
  with h1 show ?thesis
    by (auto simp add: steady_high_def ANGLE_THRESHOLD_def)
qed

section \<open>The fade-on frame\<close>

text \<open>
  C7. In \<open>FADING_ON\<close>, with the clock not before the fade start: while the elapsed time is
  strictly below 500 ms, \<open>update_leds\<close> fills the ring with the current colour scaled by
  \<open>brightness\<close>, the truncation of \<open>elapsed / 500 * 255\<close> clamped to \<open>[0, 255]\<close> (the clamp
  changes nothing there, and the brightness lies in \<open>[0, 255)\<close>), and leaves the state as it
  is; from 500 ms on it fills the ring with the full current colour and the state becomes
  \<open>ON\<close>. Scaling maps a channel \<open>c\<close> to \<open>c * brightness div 255\<close>.
\<close>

theorem fading_on_frame:
  assumes "current_state st = FADING_ON" and "fade_start_time st \<le> now"
  shows "(now - fade_start_time st < 500 \<longrightarrow>
            update_leds st now r =
              st\<lparr>pixels := fill (scale_color
                   (py_int (max 0 (min 255 ((now - fade_start_time st) / 500 * 255))))
                   (current_color st))\<rparr>
            \<and> 0 \<le> py_int (max 0 (min 255 ((now - fade_start_time st) / 500 * 255)))
            \<and> py_int (max 0 (min 255 ((now - fade_start_time st) / 500 * 255))) < 255)
         \<and> (500 \<le> now - fade_start_time st \<longrightarrow>
            update_leds st now r = st\<lparr>pixels := fill (current_color st), current_state := ON\<rparr>)
         \<and> (0 \<le> b \<and> 0 \<le> c1 \<and> 0 \<le> c2 \<and> 0 \<le> c3 \<longrightarrow>
            scale_color b (c1, c2, c3) = (c1 * b div 255, c2 * b div 255, c3 * b div 255))"
proof (intro conjI impI)
  let ?e = "now - fade_start_time st"
  assume lt: "?e < 500"
  from assms(2) have ge: "0 \<le> ?e" by simp
  from lt ge have range: "0 \<le> ?e / 500 * 255" "?e / 500 * 255 < 255"
    by simp_all
  then have clamp: "max 0 (min 255 (?e / 500 * 255)) = ?e / 500 * 255"
    by (simp add: max_def min_def)
  show "update_leds st now r =
              st\<lparr>pixels := fill (scale_color (py_int (max 0 (min 255 (?e / 500 * 255))))
                   (current_color st))\<rparr>"
    unfolding clamp using assms(1) lt
    by (simp add: update_leds_def FADE_DURATION_def Let_def)
  show "0 \<le> py_int (max 0 (min 255 (?e / 500 * 255)))"
    unfolding clamp using range by (simp add: py_int_nonneg)
  show "py_int (max 0 (min 255 (?e / 500 * 255))) < 255"
    unfolding clamp using range by (simp add: py_int_nonneg floor_less_iff)
next
  assume "500 \<le> now - fade_start_time st"
  with assms(1) show "update_leds st now r =
      st\<lparr>pixels := fill (current_color st), current_state := ON\<rparr>"
    by (simp add: update_leds_def FADE_DURATION_def Let_def)
next
  assume "0 \<le> b \<and> 0 \<le> c1 \<and> 0 \<le> c2 \<and> 0 \<le> c3"
  then show "scale_color b (c1, c2, c3) = (c1 * b div 255, c2 * b div 255, c3 * b div 255)"
    by (intro scale_color_div) simp_all
qed

text \<open>
  Half way through the fade of white the ring shows (127, 127, 127); at 500 ms it shows
  white and the state is \<open>ON\<close>.
\<close>

theorem fading_on_frame_witness:
  "update_leds fading 1250 (\<lambda>i. (120, 1)) = fading\<lparr>pixels := replicate 7 (127, 127, 127)\<rparr>
   \<and> update_leds fading 1500 (\<lambda>i. (120, 1)) =
       fading\<lparr>pixels := replicate 7 (255, 255, 255), current_state := ON\<rparr>"
proof -
  have h1: "current_state fading = FADING_ON" by (simp add: fading_def)
  have h2: "fade_start_time fading \<le> 1250" "fade_start_time fading \<le> 1500"
    by (simp_all add: fading_def)
  from fading_on_frame [OF h1 h2(1), of "\<lambda>i. (120, 1)" 127 255 255 255]
  have "update_leds fading 1250 (\<lambda>i. (120, 1)) = fading\<lparr>pixels := replicate 7 (127, 127, 127)\<rparr>"
    by (simp add: fading_def initial_state_def fill_def NUM_PIXELS_def COLORS_def WHITE_def
        py_int_def)
  moreover from fading_on_frame [OF h1 h2(2), of "\<lambda>i. (120, 1)" 127 255 255 255]
  have "update_leds fading 1500 (\<lambda>i. (120, 1)) =
       fading\<lparr>pixels := replicate 7 (255, 255, 255), current_state := ON\<rparr>"
    by (simp add: fading_def initial_state_def fill_def NUM_PIXELS_def COLORS_def WHITE_def)
  ultimately show ?thesis by simp
qed

section \<open>Palette cycling\<close>

text \<open>
  C8. A short press released in \<open>COLOR_CHANGE\<close> advances the palette index to
  \<open>(index + 1) mod 8\<close> and leaves the state \<open>COLOR_CHANGE\<close>; so \<open>N\<close> short presses in
  \<open>COLOR_CHANGE\<close> from index 0 leave the index at \<open>N mod 8\<close>. Nothing else changes the
  index: \<open>handle_button\<close> keeps it in every other state, without a release, and on a
  release after 1000 ms or more, and the rest of a loop iteration keeps the index that
  \<open>handle_button\<close> left.
\<close>

theorem palette_index_cycles:
  "(rel \<and> 0 < button_press_start_time st \<and> now - button_press_start_time st < 1000
      \<and> current_state st = COLOR_CHANGE \<longrightarrow>
      color_index (handle_button st prs rel now) = (color_index st + 1) mod 8
      \<and> current_state (handle_button st prs rel now) = COLOR_CHANGE)
   \<and> (current_state st = COLOR_CHANGE \<and> color_index st = 0 \<and> button_press_start_time st = 0
      \<and> (\<forall>p\<in>set ps. 0 < fst p \<and> snd p - fst p < 1000) \<longrightarrow>
      color_index (foldl press st ps) = length ps mod 8
      \<and> current_state (foldl press st ps) = COLOR_CHANGE)
   \<and> (current_state st \<noteq> COLOR_CHANGE \<or> \<not> rel
        \<or> (0 < button_press_start_time st \<and> 1000 \<le> now - button_press_start_time st) \<longrightarrow>
      color_index (handle_button st prs rel now) = color_index st)
   \<and> (tick st inp = Inr st' \<longrightarrow>
      color_index st' = color_index (handle_button st (pressed inp) (released inp) (t_button inp)))"
proof (intro conjI impI)
  assume a: "rel \<and> 0 < button_press_start_time st \<and> now - button_press_start_time st < 1000
      \<and> current_state st = COLOR_CHANGE"
  then have "handle_button st prs rel now =
           st\<lparr>button_press_start_time := 0,
              color_index := (color_index st + 1) mod 8,
              current_color := COLORS ! ((color_index st + 1) mod 8),
              pixels := fill (COLORS ! ((color_index st + 1) mod 8)),
              rgb_led := COLORS ! ((color_index st + 1) mod 8)\<rparr>"
    by (intro handle_button_short_color_change) simp_all
  with a show "color_index (handle_button st prs rel now) = (color_index st + 1) mod 8"
    and "current_state (handle_button st prs rel now) = COLOR_CHANGE"
    by simp_all
next
  assume b: "current_state st = COLOR_CHANGE \<and> color_index st = 0
      \<and> button_press_start_time st = 0
      \<and> (\<forall>p\<in>set ps. 0 < fst p \<and> snd p - fst p < 1000)"
  then have "color_index (foldl press st ps) = (color_index st + length ps) mod 8
         \<and> current_state (foldl press st ps) = COLOR_CHANGE
         \<and> button_press_start_time (foldl press st ps) = 0"
    by (intro presses_short_color_change) simp_all
  with b show "color_index (foldl press st ps) = length ps mod 8"
    and "current_state (foldl press st ps) = COLOR_CHANGE"
    by simp_all
next
  assume "current_state st \<noteq> COLOR_CHANGE \<or> \<not> rel
        \<or> (0 < button_press_start_time st \<and> 1000 \<le> now - button_press_start_time st)"
  then show "color_index (handle_button st prs rel now) = color_index st"
    using handle_button_index_unchanged [of st rel now prs] by blast
next
  assume "tick st inp = Inr st'"
  then show "color_index st' =
      color_index (handle_button st (pressed inp) (released inp) (t_button inp))"
    by (simp add: tick_keeps_color)
qed

text \<open>One short press from index 0 gives index 1; ten of them give index 2.\<close>

theorem palette_index_cycles_witness:
  "color_index
     (handle_button (initial_state\<lparr>current_state := COLOR_CHANGE, button_press_start_time := 100\<rparr>)
        False True 300) = 1
   \<and> color_index
     (foldl press (initial_state\<lparr>current_state := COLOR_CHANGE\<rparr>)
        [(100, 200), (300, 400), (500, 600), (700, 800), (900, 1000),
         (1100, 1200), (1300, 1400), (1500, 1600), (1700, 1800), (1900, 2000)]) = 2"
  using palette_index_cycles
      [where st = "initial_state\<lparr>current_state := COLOR_CHANGE, button_press_start_time := 100\<rparr>"
         and rel = True and prs = False and now = 300]
    palette_index_cycles
      [where st = "initial_state\<lparr>current_state := COLOR_CHANGE\<rparr>"
         and ps = "[(100, 200), (300, 400), (500, 600), (700, 800), (900, 1000),
         (1100, 1200), (1300, 1400), (1500, 1600), (1700, 1800), (1900, 2000)]"]
  by (simp add: initial_state_def)

section \<open>The extra long press\<close>

text \<open>
  C9. In every state, the release of a press of 8000 ms or more changes nothing but the
  press start, which is reset for the next press: the state, the palette index, the
  current colour and the timers of the fade, the blast, the cooldown and the angle check
  are as before.
\<close>

theorem extra_long_press_noop:
  assumes "rel" and "0 < button_press_start_time st"
    and "8000 \<le> now - button_press_start_time st"
  shows "handle_button st prs rel now = st\<lparr>button_press_start_time := 0\<rparr>
         \<and> current_state (handle_button st prs rel now) = current_state st
         \<and> color_index (handle_button st prs rel now) = color_index st
         \<and> current_color (handle_button st prs rel now) = current_color st
         \<and> fade_start_time (handle_button st prs rel now) = fade_start_time st
         \<and> blast_start_time (handle_button st prs rel now) = blast_start_time st
         \<and> last_blast_time (handle_button st prs rel now) = last_blast_time st
         \<and> last_angle_check_time (handle_button st prs rel now) = last_angle_check_time st"
proof -
  from assms have "handle_button st prs rel now = st\<lparr>button_press_start_time := 0\<rparr>"
    by (simp add: handle_button_def on_release_def press_bucket_def thresholds)
  then show ?thesis by simp
qed

text \<open>With the repulsor on, a press of 8000 ms leaves it on.\<close>

theorem extra_long_press_noop_witness:
  "handle_button (initial_state\<lparr>current_state := ON, button_press_start_time := 1000\<rparr>)
        False True 9000 = initial_state\<lparr>current_state := ON, button_press_start_time := 0\<rparr>"
  using extra_long_press_noop
     [of True "initial_state\<lparr>current_state := ON, button_press_start_time := 1000\<rparr>" 9000 False]
  by simp

section \<open>The current colour is the palette entry at the index\<close>

text \<open>
  C10. In every execution from the initial state, at every loop head, the palette index
  is below 8 and the current colour is \<open>COLORS[color_index]\<close>, hence one of the 8 palette
  colours. The two change together: \<open>handle_button\<close> either keeps both or sets the index
  to \<open>(index + 1) mod 8\<close> and the colour to the palette entry there, and the rest of a loop
  iteration keeps both.
\<close>

theorem color_follows_index:
  "(\<forall>s\<in>set (run initial_state inps).
       color_index s < 8 \<and> current_color s = COLORS ! color_index s
       \<and> current_color s \<in> set COLORS)
   \<and> (color_index (handle_button st prs rel now) = color_index st
        \<and> current_color (handle_button st prs rel now) = current_color st
      \<or> color_index (handle_button st prs rel now) = (color_index st + 1) mod 8
        \<and> current_color (handle_button st prs rel now) = COLORS ! ((color_index st + 1) mod 8))
   \<and> (tick st inp = Inr st' \<longrightarrow>
        color_index st' = color_index (handle_button st (pressed inp) (released inp) (t_button inp))
        \<and> current_color st' =
            current_color (handle_button st (pressed inp) (released inp) (t_button inp)))"
proof (intro conjI ballI impI)
  fix s assume "s \<in> set (run initial_state inps)"
  with color_ok_initial have ok: "color_ok s" by (rule run_color_ok)
  then show "color_index s < 8" and "current_color s = COLORS ! color_index s"
    by (simp_all add: color_ok_def)
  from ok show "current_color s \<in> set COLORS" by (rule color_ok_member)
next
  show "color_index (handle_button st prs rel now) = color_index st
        \<and> current_color (handle_button st prs rel now) = current_color st
      \<or> color_index (handle_button st prs rel now) = (color_index st + 1) mod 8
        \<and> current_color (handle_button st prs rel now) = COLORS ! ((color_index st + 1) mod 8)"
    by (rule handle_button_color_cases)
next
  assume t: "tick st inp = Inr st'"
  then show "color_index st' =
      color_index (handle_button st (pressed inp) (released inp) (t_button inp))"
    by (simp add: tick_keeps_color)
  from t show "current_color st' =
      current_color (handle_button st (pressed inp) (released inp) (t_button inp))"
    by (simp add: tick_keeps_color)
qed

text \<open>
  After a long press and a short press the index is 1 and the colour is red, the palette
  entry at 1.
\<close>

theorem color_follows_index_witness:
  "color_index (last (run initial_state color_demo)) = 1
   \<and> current_state (last (run initial_state color_demo)) = COLOR_CHANGE
   \<and> current_color (last (run initial_state color_demo)) = (255, 0, 0)"
proof -
  have idx: "color_index (last (run initial_state color_demo)) = 1
     \<and> current_state (last (run initial_state color_demo)) = COLOR_CHANGE"
    by (simp add: color_demo_def eval_defs replicate_20 float_eval)
  have "last (run initial_state color_demo) \<in> set (run initial_state color_demo)"
    by (simp add: run_nonempty)
  with color_follows_index [of color_demo]
  have "current_color (last (run initial_state color_demo))
          = COLORS ! color_index (last (run initial_state color_demo))"
    by blast
  with idx show ?thesis by (simp add: COLORS_def RED_def)
qed

end
